theory Spec2Isabelle
  imports Complex_Main
begin

section \<open>JavaScript numbers\<close>

text \<open>
  Every number of \<^verbatim>\<open>App.vue\<close> is a JavaScript \<^verbatim>\<open>number\<close>. The model keeps the
  three non-finite values of the language apart from the finite ones and computes on the
  finite ones with exact real arithmetic: rounding, overflow to an infinity and the sign
  of zero are left out, so a decimal literal such as \<^verbatim>\<open>130.81\<close> is the rational it
  denotes and \<^verbatim>\<open>Math.PI\<close> is \<open>\<pi>\<close>. What the operators do on \<^verbatim>\<open>NaN\<close> and on the
  infinities follows ECMAScript.
\<close>

datatype jsnum = Fin real | PInf | NInf | NaN

fun jneg :: "jsnum \<Rightarrow> jsnum" where
  "jneg (Fin a) = Fin (- a)"
| "jneg PInf = NInf"
| "jneg NInf = PInf"
| "jneg NaN = NaN"

fun jadd :: "jsnum \<Rightarrow> jsnum \<Rightarrow> jsnum" where
  "jadd NaN _ = NaN"
| "jadd _ NaN = NaN"
| "jadd (Fin a) (Fin b) = Fin (a + b)"
| "jadd PInf NInf = NaN"
| "jadd NInf PInf = NaN"
| "jadd PInf _ = PInf"
| "jadd _ PInf = PInf"
| "jadd NInf _ = NInf"
| "jadd _ NInf = NInf"

definition jsub :: "jsnum \<Rightarrow> jsnum \<Rightarrow> jsnum" where
  "jsub a b = jadd a (jneg b)"

text \<open>An infinity times a finite factor: \<^verbatim>\<open>NaN\<close> for zero, else the sign rule.\<close>

definition scale_inf :: "real \<Rightarrow> jsnum \<Rightarrow> jsnum" where
  "scale_inf a i = (if a = 0 then NaN else if 0 < a then i else jneg i)"

fun jmul :: "jsnum \<Rightarrow> jsnum \<Rightarrow> jsnum" where
  "jmul NaN _ = NaN"
| "jmul _ NaN = NaN"
| "jmul (Fin a) (Fin b) = Fin (a * b)"
| "jmul (Fin a) i = scale_inf a i"
| "jmul i (Fin b) = scale_inf b i"
| "jmul PInf i = i"
| "jmul NInf i = jneg i"

text \<open>
  Division never raises: \<^verbatim>\<open>0 / 0\<close> and an infinity over an infinity are \<^verbatim>\<open>NaN\<close>,
  another finite number over zero is an infinity.
\<close>

fun jdiv :: "jsnum \<Rightarrow> jsnum \<Rightarrow> jsnum" where
  "jdiv NaN _ = NaN"
| "jdiv _ NaN = NaN"
| "jdiv (Fin a) (Fin b) =
     (if b = 0 then (if a = 0 then NaN else if 0 < a then PInf else NInf)
      else Fin (a / b))"
| "jdiv (Fin a) _ = Fin 0"
| "jdiv PInf (Fin b) = (if 0 \<le> b then PInf else NInf)"
| "jdiv NInf (Fin b) = (if 0 \<le> b then NInf else PInf)"
| "jdiv _ _ = NaN"

text \<open>The comparison \<^verbatim>\<open><\<close>: false as soon as one side is \<^verbatim>\<open>NaN\<close>.\<close>

fun jlt :: "jsnum \<Rightarrow> jsnum \<Rightarrow> bool" where
  "jlt NaN _ = False"
| "jlt _ NaN = False"
| "jlt (Fin a) (Fin b) = (a < b)"
| "jlt PInf _ = False"
| "jlt _ PInf = True"
| "jlt _ NInf = False"
| "jlt NInf _ = True"

definition jgt :: "jsnum \<Rightarrow> jsnum \<Rightarrow> bool" where
  "jgt a b = jlt b a"

fun jle :: "jsnum \<Rightarrow> jsnum \<Rightarrow> bool" where
  "jle NaN _ = False"
| "jle _ NaN = False"
| "jle a b = (\<not> jlt b a)"

subsection \<open>The functions of \<^verbatim>\<open>Math\<close> that the program calls\<close>

definition Math_PI :: jsnum where
  "Math_PI = Fin pi"

fun Math_abs :: "jsnum \<Rightarrow> jsnum" where
  "Math_abs (Fin a) = Fin \<bar>a\<bar>"
| "Math_abs PInf = PInf"
| "Math_abs NInf = PInf"
| "Math_abs NaN = NaN"

fun Math_sqrt :: "jsnum \<Rightarrow> jsnum" where
  "Math_sqrt (Fin a) = (if a < 0 then NaN else Fin (sqrt a))"
| "Math_sqrt PInf = PInf"
| "Math_sqrt NInf = NaN"
| "Math_sqrt NaN = NaN"

text \<open>\<^verbatim>\<open>Math.pow(b, 2)\<close>, the only exponent the program uses.\<close>

fun Math_pow2 :: "jsnum \<Rightarrow> jsnum" where
  "Math_pow2 (Fin a) = Fin (a\<^sup>2)"
| "Math_pow2 PInf = PInf"
| "Math_pow2 NInf = PInf"
| "Math_pow2 NaN = NaN"

definition Math_min :: "jsnum \<Rightarrow> jsnum \<Rightarrow> jsnum" where
  "Math_min a b = (if a = NaN \<or> b = NaN then NaN else if jlt b a then b else a)"

text \<open>
  \<^verbatim>\<open>Math.atan2(y, x)\<close> on finite arguments: the angle of the point \<open>(x, y)\<close>, by
  quadrant from the arc tangent of the quotient.
\<close>

definition atan2 :: "real \<Rightarrow> real \<Rightarrow> real" where
  "atan2 y x =
     (if 0 < x then arctan (y / x)
      else if x < 0 then (if 0 \<le> y then arctan (y / x) + pi else arctan (y / x) - pi)
      else if 0 < y then pi / 2
      else if y < 0 then - (pi / 2)
      else 0)"

fun Math_atan2 :: "jsnum \<Rightarrow> jsnum \<Rightarrow> jsnum" where
  "Math_atan2 NaN _ = NaN"
| "Math_atan2 _ NaN = NaN"
| "Math_atan2 (Fin y) (Fin x) = Fin (atan2 y x)"
| "Math_atan2 (Fin y) PInf = Fin 0"
| "Math_atan2 (Fin y) NInf = Fin (if 0 \<le> y then pi else - pi)"
| "Math_atan2 PInf (Fin x) = Fin (pi / 2)"
| "Math_atan2 PInf PInf = Fin (pi / 4)"
| "Math_atan2 PInf NInf = Fin (3 * pi / 4)"
| "Math_atan2 NInf (Fin x) = Fin (- (pi / 2))"
| "Math_atan2 NInf PInf = Fin (- (pi / 4))"
| "Math_atan2 NInf NInf = Fin (- (3 * pi / 4))"

section \<open>State of the component\<close>

text \<open>
  The module-level variables of \<^verbatim>\<open>App.vue\<close> form one record. The Web Audio nodes
  keep what the program writes to them and what it reads back: an \<^verbatim>\<open>AudioParam\<close>
  has the value that \<^verbatim>\<open>.value\<close> reads and the target of the last
  \<^verbatim>\<open>setTargetAtTime\<close>; how the ramp moves the value as time passes, and the
  connections between the nodes, are outside the model. A node counts its
  \<^verbatim>\<open>start()\<close> and \<^verbatim>\<open>stop()\<close> calls, the context its \<^verbatim>\<open>close()\<close> calls.
\<close>

datatype js_error = TypeError | ReferenceError

record point =
  px :: jsnum
  py :: jsnum

record mouse_event =
  clientX :: jsnum
  clientY :: jsnum

record dom_rect =
  rect_left :: jsnum
  rect_top :: jsnum
  rect_width :: jsnum
  rect_height :: jsnum

definition rect_bottom :: "dom_rect \<Rightarrow> jsnum" where
  "rect_bottom r = jadd (rect_top r) (rect_height r)"

record audio_param =
  pvalue :: jsnum
  ptarget :: "jsnum option"

definition setValueAtTime :: "jsnum \<Rightarrow> audio_param \<Rightarrow> audio_param" where
  "setValueAtTime v p = \<lparr>pvalue = v, ptarget = None\<rparr>"

definition setTargetAtTime :: "jsnum \<Rightarrow> audio_param \<Rightarrow> audio_param" where
  "setTargetAtTime v p = p\<lparr>ptarget := Some v\<rparr>"

record oscillator_node =
  osc_type :: string
  osc_frequency :: audio_param
  osc_starts :: nat
  osc_stops :: nat

record gain_node =
  gain :: audio_param

record biquad_filter_node =
  filter_type :: string
  filter_frequency :: audio_param
  filter_Q :: audio_param

record audio_context =
  closes :: nat

text \<open>
  The last six fields are the environment: whether the canvas element is there, the
  bounding rectangle of the \<^verbatim>\<open>.window\<close> element (\<open>None\<close> when
  \<^verbatim>\<open>querySelector\<close> finds none), the size written to its style, the frames
  requested and cancelled, and whether the window listeners are registered.
\<close>

record app =
  isDragging :: bool
  mousePosition :: point
  windowCenter :: point
  restPosition :: point
  currentRopeEnd :: point
  animationFrameId :: "nat option"
  audioContext :: "audio_context option"
  oscillator :: "oscillator_node option"
  gainNode :: "gain_node option"
  lfo :: "oscillator_node option"
  lfoGain :: "gain_node option"
  lowpassFilter :: "biquad_filter_node option"
  isAudioInitialized :: bool
  containerCanvas :: bool
  windowDiv :: "dom_rect option"
  windowStyleSize :: "jsnum option"
  frameRequests :: nat
  cancelledFrames :: "nat list"
  listeners :: bool

definition initialState :: app where
  "initialState =
     \<lparr>isDragging = False,
      mousePosition = \<lparr>px = Fin 0, py = Fin 0\<rparr>,
      windowCenter = \<lparr>px = Fin 0, py = Fin 0\<rparr>,
      restPosition = \<lparr>px = Fin 0, py = Fin 0\<rparr>,
      currentRopeEnd = \<lparr>px = Fin 0, py = Fin 0\<rparr>,
      animationFrameId = None,
      audioContext = None, oscillator = None, gainNode = None, lfo = None,
      lfoGain = None, lowpassFilter = None,
      isAudioInitialized = False,
      containerCanvas = False, windowDiv = None, windowStyleSize = None,
      frameRequests = 0, cancelledFrames = [], listeners = False\<rparr>"

definition PARAMETERS_oscillatorType :: string where
  "PARAMETERS_oscillatorType = ''square''"

definition PARAMETERS_lfoType :: string where
  "PARAMETERS_lfoType = ''sine''"

definition PARAMETERS_minLFOFreq :: jsnum where
  "PARAMETERS_minLFOFreq = Fin 0.1"

definition PARAMETERS_maxLFOFreq :: jsnum where
  "PARAMETERS_maxLFOFreq = Fin 15"

definition PARAMETERS_lfoGain :: jsnum where
  "PARAMETERS_lfoGain = Fin 3"

definition PARAMETERS_minOscillatorGain :: jsnum where
  "PARAMETERS_minOscillatorGain = Fin 150"

definition PARAMETERS_maxOscillatorGain :: jsnum where
  "PARAMETERS_maxOscillatorGain = Fin 500"

definition PENTATONIC_FREQUENCIES :: "jsnum list" where
  "PENTATONIC_FREQUENCIES =
     [Fin 110.0, Fin 130.81, Fin 146.83, Fin 164.81, Fin 196.0, Fin 220.0, Fin 261.63,
      Fin 293.66, Fin 329.63, Fin 392.0, Fin 440.0, Fin 523.25, Fin 587.33, Fin 659.25,
      Fin 783.99, Fin 880.0]"

section \<open>The functions of \<^verbatim>\<open>App.vue\<close>\<close>

text \<open>
  A fresh oscillator has type sine and frequency 440, a fresh gain node gain 1. The
  assignment \<^verbatim>\<open>gainNode.gain.value = 0\<close> is the last write to that parameter.
\<close>

definition initAudio :: "app \<Rightarrow> app" where
  "initAudio s =
     (if \<not> isAudioInitialized s then
        s\<lparr>audioContext := Some \<lparr>closes = 0\<rparr>,
          oscillator := Some \<lparr>osc_type = PARAMETERS_oscillatorType,
                              osc_frequency = \<lparr>pvalue = Fin 440, ptarget = None\<rparr>,
                              osc_starts = 1, osc_stops = 0\<rparr>,
          gainNode := Some \<lparr>gain = \<lparr>pvalue = Fin 0, ptarget = None\<rparr>\<rparr>,
          lowpassFilter := Some \<lparr>filter_type = ''lowpass'',
                                 filter_frequency = setValueAtTime (Fin 1000) \<lparr>pvalue = Fin 350, ptarget = None\<rparr>,
                                 filter_Q = setValueAtTime (Fin 10) \<lparr>pvalue = Fin 1, ptarget = None\<rparr>\<rparr>,
          lfo := Some \<lparr>osc_type = PARAMETERS_lfoType,
                       osc_frequency = setValueAtTime (Fin 1) \<lparr>pvalue = Fin 440, ptarget = None\<rparr>,
                       osc_starts = 1, osc_stops = 0\<rparr>,
          lfoGain := Some \<lparr>gain = setValueAtTime PARAMETERS_lfoGain \<lparr>pvalue = Fin 1, ptarget = None\<rparr>\<rparr>,
          isAudioInitialized := True\<rparr>
      else s)"

text \<open>
  \<^verbatim>\<open>reduce\<close> without an initial value starts from element 0 and folds the callback
  over the rest; it raises only on an empty array, and \<open>PENTATONIC_FREQUENCIES\<close> is a
  literal of sixteen elements.
\<close>

definition findClosestPentatonicFrequency :: "jsnum \<Rightarrow> jsnum" where
  "findClosestPentatonicFrequency freq =
     foldl (\<lambda>prev curr.
              if jlt (Math_abs (jsub curr freq)) (Math_abs (jsub prev freq)) then curr else prev)
       (hd PENTATONIC_FREQUENCIES) (tl PENTATONIC_FREQUENCIES)"

definition requestAnimationFrame :: "app \<Rightarrow> app" where
  "requestAnimationFrame s =
     s\<lparr>frameRequests := Suc (frameRequests s),
       animationFrameId := Some (Suc (frameRequests s))\<rparr>"

definition cancelAnimationFrame :: "nat \<Rightarrow> app \<Rightarrow> app" where
  "cancelAnimationFrame i s = s\<lparr>cancelledFrames := cancelledFrames s @ [i]\<rparr>"

definition updateWindowCenter :: "app \<Rightarrow> js_error + app" where
  "updateWindowCenter s =
     (case windowDiv s of
        None \<Rightarrow> Inl TypeError
      | Some rect \<Rightarrow>
          Inr (s\<lparr>windowCenter :=
                   \<lparr>px = jadd (rect_left rect) (jdiv (rect_width rect) (Fin 2)),
                    py = jadd (rect_top rect) (jdiv (rect_height rect) (Fin 2))\<rparr>\<rparr>))"

text \<open>
  \<^verbatim>\<open>calculateRestPosition\<close> reads the rectangle of the window element, which raises
  when the element is missing, and then uses the constant radius \<^verbatim>\<open>200 / 2 + 20\<close>.
\<close>

definition calculateRestPosition :: "app \<Rightarrow> jsnum \<Rightarrow> jsnum \<Rightarrow> js_error + point" where
  "calculateRestPosition s mouseX mouseY =
     (case windowDiv s of
        None \<Rightarrow> Inl TypeError
      | Some rect \<Rightarrow>
          let radius = jadd (jdiv (Fin 200) (Fin 2)) (Fin 20);
              dx = jsub mouseX (px (windowCenter s));
              dy = jsub mouseY (py (windowCenter s));
              distance = Math_sqrt (jadd (jmul dx dx) (jmul dy dy));
              normalizedX = jdiv dx distance;
              normalizedY = jdiv dy distance
          in Inr \<lparr>px = jadd (px (windowCenter s)) (jmul normalizedX radius),
                  py = jadd (py (windowCenter s)) (jmul normalizedY radius)\<rparr>)"

definition updateMousePosition :: "app \<Rightarrow> mouse_event \<Rightarrow> app" where
  "updateMousePosition s event =
     s\<lparr>mousePosition := \<lparr>px = clientX event, py = clientY event\<rparr>\<rparr>"

definition handleMouseDown :: "app \<Rightarrow> mouse_event \<Rightarrow> app" where
  "handleMouseDown s event =
     (let dx = jsub (clientX event) (px (currentRopeEnd s));
          dy = jsub (clientY event) (py (currentRopeEnd s));
          distance = Math_sqrt (jadd (jmul dx dx) (jmul dy dy))
      in if jle distance (Fin 18)
         then updateMousePosition ((initAudio s)\<lparr>isDragging := True\<rparr>) event
         else s)"

definition handleMouseMove :: "app \<Rightarrow> mouse_event \<Rightarrow> app" where
  "handleMouseMove s event = (if isDragging s then updateMousePosition s event else s)"

text \<open>
  An exception leaves the variables as they were when it was raised: \<open>Inl (e, s')\<close> is
  the error \<open>e\<close> thrown in state \<open>s'\<close>. \<^verbatim>\<open>audioContext!.currentTime\<close> raises when
  the context is null.
\<close>

definition handleMouseUp :: "app \<Rightarrow> (js_error \<times> app) + app" where
  "handleMouseUp s =
     (let s1 = s\<lparr>isDragging := False\<rparr> in
      case (case gainNode s1 of
              None \<Rightarrow> Inr s1
            | Some g \<Rightarrow>
                (case audioContext s1 of
                   None \<Rightarrow> Inl (TypeError, s1)
                 | Some ctx \<Rightarrow>
                     Inr (s1\<lparr>gainNode := Some (g\<lparr>gain := setTargetAtTime (Fin 0) (gain g)\<rparr>)\<rparr>)))
      of Inl e \<Rightarrow> Inl e
       | Inr s2 \<Rightarrow>
           (case calculateRestPosition s2 (px (mousePosition s2)) (py (mousePosition s2)) of
              Inl e \<Rightarrow> Inl (e, s2)
            | Inr p \<Rightarrow> Inr (s2\<lparr>restPosition := p\<rparr>)))"

definition lerp :: "jsnum \<Rightarrow> jsnum \<Rightarrow> jsnum \<Rightarrow> jsnum" where
  "lerp start end' t = jadd start (jmul (jsub end' start) t)"

definition calculateRopeLength :: "jsnum \<Rightarrow> jsnum \<Rightarrow> jsnum \<Rightarrow> jsnum \<Rightarrow> jsnum" where
  "calculateRopeLength x1 y1 x2 y2 =
     Math_sqrt (jadd (Math_pow2 (jsub x2 x1)) (Math_pow2 (jsub y2 y1)))"

definition calculateAngle :: "jsnum \<Rightarrow> jsnum \<Rightarrow> jsnum \<Rightarrow> jsnum \<Rightarrow> jsnum" where
  "calculateAngle x1 y1 x2 y2 =
     (let dx = jsub x2 x1;
          dy = jsub y2 y1
      in Math_atan2 dx dy)"

text \<open>
  \<^verbatim>\<open>updateAudio\<close> does nothing unless the five audio handles are all set. The filter
  block is skipped when \<^verbatim>\<open>lowpassFilter\<close> is null.
\<close>

definition updateAudio :: "app \<Rightarrow> jsnum \<Rightarrow> app" where
  "updateAudio s ropeLength =
     (case (oscillator s, gainNode s, audioContext s, lfo s, lfoGain s) of
        (Some osc, Some g, Some ctx, Some l, Some lg) \<Rightarrow>
          let angle = calculateAngle (px (windowCenter s)) (py (windowCenter s))
                        (px (currentRopeEnd s)) (py (currentRopeEnd s));
              filter' =
                (case lowpassFilter s of
                   None \<Rightarrow> None
                 | Some f \<Rightarrow>
                     let minCutoff = Fin 0;
                         maxCutoff = Fin 5000;
                         normalizedLength =
                           Math_min (jdiv (jsub ropeLength (Fin 150)) (jsub (Fin 500) (Fin 150))) (Fin 1);
                         cutoffFrequency =
                           jadd minCutoff (jmul normalizedLength (jsub maxCutoff minCutoff))
                     in Some (f\<lparr>filter_frequency :=
                                  setValueAtTime cutoffFrequency (filter_frequency f)\<rparr>));
              normalizedAngle = jdiv (jadd angle Math_PI) (jmul (Fin 2) Math_PI);
              baseFrequency = jadd (Fin 110) (jmul normalizedAngle (Fin 770));
              snappedFrequency = findClosestPentatonicFrequency baseFrequency;
              minLFOFreq = PARAMETERS_minLFOFreq;
              maxLFOFreq = PARAMETERS_maxLFOFreq;
              normalizedRopeLength =
                Math_min (jdiv (jsub ropeLength (Fin 150)) (jsub (Fin 500) (Fin 150))) (Fin 1);
              lfoFrequency = jadd minLFOFreq (jmul normalizedRopeLength (jsub maxLFOFreq minLFOFreq));
              l' = l\<lparr>osc_frequency := setValueAtTime lfoFrequency (osc_frequency l)\<rparr>;
              osc' = osc\<lparr>osc_frequency :=
                         setTargetAtTime (jadd snappedFrequency (pvalue (gain lg)))
                           (osc_frequency osc)\<rparr>;
              minGainDistance = PARAMETERS_minOscillatorGain;
              maxGainDistance = PARAMETERS_maxOscillatorGain;
              targetGain =
                (if jgt ropeLength minGainDistance then
                   let normalizedLength =
                         Math_min (jdiv (jsub ropeLength minGainDistance)
                                     (jsub maxGainDistance minGainDistance)) (Fin 1)
                   in jmul normalizedLength (Fin 0.4)
                 else Fin 0);
              g' = g\<lparr>gain := setTargetAtTime targetGain (gain g)\<rparr>
          in s\<lparr>lowpassFilter := filter', lfo := Some l', oscillator := Some osc',
               gainNode := Some g'\<rparr>
      | _ \<Rightarrow> s)"

text \<open>
  A tick. Without the canvas or the window element it only asks for the next frame. The
  drawing on the canvas is not part of the model; the size written to the style of the
  window element is.
\<close>

definition animate :: "app \<Rightarrow> app" where
  "animate s =
     (if \<not> containerCanvas s \<or> windowDiv s = None then requestAnimationFrame s
      else
        let lerpFactor = (if isDragging s then Fin 0.2 else Fin 0.01);
            targetX = (if isDragging s then px (mousePosition s) else px (restPosition s));
            targetY = (if isDragging s then py (mousePosition s) else py (restPosition s));
            s1 = s\<lparr>currentRopeEnd :=
                      \<lparr>px = lerp (px (currentRopeEnd s)) targetX lerpFactor,
                       py = lerp (py (currentRopeEnd s)) targetY lerpFactor\<rparr>\<rparr>;
            ropeLength = calculateRopeLength (px (windowCenter s1)) (py (windowCenter s1))
                           (px (currentRopeEnd s1)) (py (currentRopeEnd s1));
            s2 = updateAudio s1 ropeLength;
            baseSize = Fin 200;
            maxSize = Fin 500;
            normalizedLength =
              Math_min (jdiv (jsub ropeLength (Fin 150)) (jsub (Fin 500) (Fin 150))) (Fin 1);
            newSize = jadd baseSize (jmul normalizedLength (jsub maxSize baseSize));
            s3 = s2\<lparr>windowStyleSize := Some newSize\<rparr>
        in requestAnimationFrame s3)"

definition onMounted :: "app \<Rightarrow> (js_error \<times> app) + app" where
  "onMounted s =
     (case (case windowDiv s of
              None \<Rightarrow> Inr s
            | Some rect \<Rightarrow>
                if containerCanvas s then
                  (case updateWindowCenter s of
                     Inl e \<Rightarrow> Inl (e, s)
                   | Inr s1 \<Rightarrow>
                       let s2 = s1\<lparr>currentRopeEnd :=
                                     \<lparr>px = jadd (rect_left rect) (jdiv (rect_width rect) (Fin 2)),
                                      py = jadd (rect_bottom rect) (Fin 20)\<rparr>\<rparr>
                       in Inr (s2\<lparr>restPosition := currentRopeEnd s2\<rparr>))
                else Inr s)
      of Inl e \<Rightarrow> Inl e
       | Inr s3 \<Rightarrow> Inr ((animate s3)\<lparr>listeners := True\<rparr>))"

text \<open>
  Teardown tests each handle and calls it; no handle is cleared afterwards except
  \<^verbatim>\<open>lowpassFilter\<close>.
\<close>

definition onUnmounted :: "app \<Rightarrow> app" where
  "onUnmounted s =
     (let s1 = (case animationFrameId s of
                  None \<Rightarrow> s
                | Some i \<Rightarrow> cancelAnimationFrame i s);
          s2 = (case oscillator s1 of
                  None \<Rightarrow> s1
                | Some osc \<Rightarrow> s1\<lparr>oscillator := Some (osc\<lparr>osc_stops := Suc (osc_stops osc)\<rparr>)\<rparr>);
          s3 = (case audioContext s2 of
                  None \<Rightarrow> s2
                | Some ctx \<Rightarrow> s2\<lparr>audioContext := Some (ctx\<lparr>closes := Suc (closes ctx)\<rparr>)\<rparr>);
          s4 = (case lfo s3 of
                  None \<Rightarrow> s3
                | Some l \<Rightarrow> s3\<lparr>lfo := Some (l\<lparr>osc_stops := Suc (osc_stops l)\<rparr>)\<rparr>)
      in s4\<lparr>lowpassFilter := None, listeners := False\<rparr>)"

section \<open>The second variant of the component\<close>

text \<open>
  The repository holds an earlier copy of the component without filter and scale. Its
  \<^verbatim>\<open>initAudio\<close> sets the modulation depth to 50; its
  \<^verbatim>\<open>updateAudio\<close> sends the unsnapped frequency and caps the gain at 0.75; its
  teardown tests the identifier \<^verbatim>\<open>lfoOscillator\<close>, which no declaration binds, so
  the test raises and the statements after it are not reached; its rest position takes
  the radius from the width of the window element.
\<close>

definition initAudio_part_000 :: "app \<Rightarrow> app" where
  "initAudio_part_000 s =
     (if \<not> isAudioInitialized s then
        s\<lparr>audioContext := Some \<lparr>closes = 0\<rparr>,
          oscillator := Some \<lparr>osc_type = ''sine'',
                              osc_frequency = \<lparr>pvalue = Fin 440, ptarget = None\<rparr>,
                              osc_starts = 1, osc_stops = 0\<rparr>,
          gainNode := Some \<lparr>gain = \<lparr>pvalue = Fin 0, ptarget = None\<rparr>\<rparr>,
          lfo := Some \<lparr>osc_type = ''sine'',
                       osc_frequency = setValueAtTime (Fin 1) \<lparr>pvalue = Fin 440, ptarget = None\<rparr>,
                       osc_starts = 1, osc_stops = 0\<rparr>,
          lfoGain := Some \<lparr>gain = setValueAtTime (Fin 50) \<lparr>pvalue = Fin 1, ptarget = None\<rparr>\<rparr>,
          isAudioInitialized := True\<rparr>
      else s)"

definition updateAudio_part_000 :: "app \<Rightarrow> jsnum \<Rightarrow> app" where
  "updateAudio_part_000 s ropeLength =
     (case (oscillator s, gainNode s, audioContext s, lfo s, lfoGain s) of
        (Some osc, Some g, Some ctx, Some l, Some lg) \<Rightarrow>
          let angle = calculateAngle (px (windowCenter s)) (py (windowCenter s))
                        (px (currentRopeEnd s)) (py (currentRopeEnd s));
              normalizedAngle = jdiv (jadd angle Math_PI) (jmul (Fin 2) Math_PI);
              baseFrequency = jadd (Fin 200) (jmul normalizedAngle (Fin 600));
              minLFODepth = Fin 0.5;
              maxLFODepth = Fin 5;
              normalizedRopeLength =
                Math_min (jdiv (jsub ropeLength (Fin 150)) (jsub (Fin 500) (Fin 150))) (Fin 1);
              lfoFrequency =
                jadd minLFODepth
                  (jmul (jmul normalizedRopeLength (jsub maxLFODepth minLFODepth)) (Fin 20));
              l' = l\<lparr>osc_frequency := setValueAtTime lfoFrequency (osc_frequency l)\<rparr>;
              osc' = osc\<lparr>osc_frequency :=
                         setTargetAtTime (jadd baseFrequency (pvalue (gain lg)))
                           (osc_frequency osc)\<rparr>;
              minGainDistance = Fin 150;
              maxGainDistance = Fin 500;
              targetGain =
                (if jgt ropeLength minGainDistance then
                   let normalizedLength =
                         Math_min (jdiv (jsub ropeLength minGainDistance)
                                     (jsub maxGainDistance minGainDistance)) (Fin 1)
                   in jmul normalizedLength (Fin 0.75)
                 else Fin 0);
              g' = g\<lparr>gain := setTargetAtTime targetGain (gain g)\<rparr>
          in s\<lparr>lfo := Some l', oscillator := Some osc', gainNode := Some g'\<rparr>
      | _ \<Rightarrow> s)"

definition onUnmounted_part_000 :: "app \<Rightarrow> js_error \<times> app" where
  "onUnmounted_part_000 s =
     (let s1 = (case animationFrameId s of
                  None \<Rightarrow> s
                | Some i \<Rightarrow> cancelAnimationFrame i s);
          s2 = (case oscillator s1 of
                  None \<Rightarrow> s1
                | Some osc \<Rightarrow> s1\<lparr>oscillator := Some (osc\<lparr>osc_stops := Suc (osc_stops osc)\<rparr>)\<rparr>);
          s3 = (case audioContext s2 of
                  None \<Rightarrow> s2
                | Some ctx \<Rightarrow> s2\<lparr>audioContext := Some (ctx\<lparr>closes := Suc (closes ctx)\<rparr>)\<rparr>)
      in (ReferenceError, s3))"

definition calculateRestPosition_part_000 :: "app \<Rightarrow> jsnum \<Rightarrow> jsnum \<Rightarrow> js_error + point" where
  "calculateRestPosition_part_000 s mouseX mouseY =
     (case windowDiv s of
        None \<Rightarrow> Inl TypeError
      | Some rect \<Rightarrow>
          let radius = jadd (jdiv (rect_width rect) (Fin 2)) (Fin 20);
              dx = jsub mouseX (px (windowCenter s));
              dy = jsub mouseY (py (windowCenter s));
              distance = Math_sqrt (jadd (jmul dx dx) (jmul dy dy));
              normalizedX = jdiv dx distance;
              normalizedY = jdiv dy distance
          in Inr \<lparr>px = jadd (px (windowCenter s)) (jmul normalizedX radius),
                  py = jadd (py (windowCenter s)) (jmul normalizedY radius)\<rparr>)"

section \<open>Observations and auxiliary notions\<close>

text \<open>
  What the last call left on each node: the targets of the oscillator frequency and of
  the gain, the rate of the modulation oscillator and the cutoff of the filter.
\<close>

definition gainTarget :: "app \<Rightarrow> jsnum option" where
  "gainTarget s = (case gainNode s of None \<Rightarrow> None | Some g \<Rightarrow> ptarget (gain g))"

definition oscillatorTarget :: "app \<Rightarrow> jsnum option" where
  "oscillatorTarget s =
     (case oscillator s of None \<Rightarrow> None | Some osc \<Rightarrow> ptarget (osc_frequency osc))"

definition lfoRate :: "app \<Rightarrow> jsnum option" where
  "lfoRate s = (case lfo s of None \<Rightarrow> None | Some l \<Rightarrow> Some (pvalue (osc_frequency l)))"

definition filterCutoff :: "app \<Rightarrow> jsnum option" where
  "filterCutoff s =
     (case lowpassFilter s of None \<Rightarrow> None | Some f \<Rightarrow> Some (pvalue (filter_frequency f)))"

text \<open>The guard of \<^verbatim>\<open>updateAudio\<close>: the five handles are set.\<close>

definition audioReady :: "app \<Rightarrow> bool" where
  "audioReady s \<longleftrightarrow>
     oscillator s \<noteq> None \<and> gainNode s \<noteq> None \<and> audioContext s \<noteq> None \<and>
     lfo s \<noteq> None \<and> lfoGain s \<noteq> None"

text \<open>The scale as real numbers, and the callback of the fold on real numbers.\<close>

definition scale :: "real list" where
  "scale = [110.0, 130.81, 146.83, 164.81, 196.0, 220.0, 261.63, 293.66, 329.63, 392.0,
            440.0, 523.25, 587.33, 659.25, 783.99, 880.0]"

definition nearer :: "real \<Rightarrow> real \<Rightarrow> real \<Rightarrow> real" where
  "nearer f p c = (if \<bar>c - f\<bar> < \<bar>p - f\<bar> then c else p)"


text \<open>
  States for the examples. The first three have the window element at (400, 400) with
  width and height 200, so that its centre is (500, 500): \<open>mountable\<close> is the page
  before \<^verbatim>\<open>onMounted\<close>, \<open>releaseState\<close> has the pointer at (600, 500), and
  \<open>settling\<close> has the rope end at (700, 500) and the rest position at (620, 500). In
  \<open>playing\<close> a frame is requested and the audio graph built.
\<close>

definition mountable :: app where
  "mountable =
     initialState\<lparr>containerCanvas := True,
                  windowDiv := Some \<lparr>rect_left = Fin 400, rect_top = Fin 400,
                                      rect_width = Fin 200, rect_height = Fin 200\<rparr>\<rparr>"



definition playing :: app where
  "playing = initAudio (requestAnimationFrame initialState)"

section \<open>Arithmetic of finite numbers\<close>

lemma jsub_Fin [simp]: "jsub (Fin a) (Fin b) = Fin (a - b)"
  by (simp add: jsub_def)

lemma jgt_Fin [simp]: "jgt (Fin a) (Fin b) = (b < a)"
  by (simp add: jgt_def)

lemma Math_min_Fin [simp]: "Math_min (Fin a) (Fin b) = Fin (min a b)"
  by (simp add: Math_min_def min_def)

lemma atan2_range: "- pi < atan2 y x \<and> atan2 y x \<le> pi"
proof -
  have b: "- (pi / 2) < arctan (y / x)" "arctan (y / x) < pi / 2"
    by (rule arctan_lbound, rule arctan_ubound)
  have p: "0 < pi" by (rule pi_gt_zero)
  consider "0 < x" | "x < 0" "0 \<le> y" | "x < 0" "y < 0" | "x = 0" by linarith
  then show ?thesis
  proof cases
    case 1
    then have "atan2 y x = arctan (y / x)" by (simp add: atan2_def)
    with b p show ?thesis by linarith
  next
    case 2
    then have "y / x \<le> 0" by (simp add: divide_nonneg_neg)
    then have "arctan (y / x) \<le> 0" by (simp add: arctan_le_zero_iff)
    moreover from 2 have "atan2 y x = arctan (y / x) + pi" by (simp add: atan2_def)
    ultimately show ?thesis using b p by linarith
  next
    case 3
    then have "0 < y / x" by (simp add: divide_neg_neg)
    then have "0 < arctan (y / x)" by (simp add: zero_less_arctan_iff)
    moreover from 3 have "atan2 y x = arctan (y / x) - pi" by (simp add: atan2_def)
    ultimately show ?thesis using b p by linarith
  next
    case 4
    then have "atan2 y x = pi / 2 \<or> atan2 y x = - (pi / 2) \<or> atan2 y x = 0"
      by (simp add: atan2_def)
    with p show ?thesis by linarith
  qed
qed

section \<open>Rope geometry\<close>

text \<open>
  Claim C6. \<^verbatim>\<open>calculateRopeLength\<close> and \<^verbatim>\<open>calculateAngle\<close> depend on the centre
  and the rope end only (they take no state). On every pair of finite points the length
  is the Euclidean distance, which is not negative, and the angle is the arc tangent of
  \<open>dx\<close> over \<open>dy\<close> by quadrant, which lies in the interval from \<open>-\<pi>\<close> (excluded) to
  \<open>\<pi>\<close> (included).
\<close>

theorem rope_geometry_range:
  "calculateRopeLength (Fin x1) (Fin y1) (Fin x2) (Fin y2)
     = Fin (sqrt ((x2 - x1)\<^sup>2 + (y2 - y1)\<^sup>2)) \<and>
   0 \<le> sqrt ((x2 - x1)\<^sup>2 + (y2 - y1)\<^sup>2) \<and>
   calculateAngle (Fin x1) (Fin y1) (Fin x2) (Fin y2) = Fin (atan2 (x2 - x1) (y2 - y1)) \<and>
   - pi < atan2 (x2 - x1) (y2 - y1) \<and> atan2 (x2 - x1) (y2 - y1) \<le> pi"
  using atan2_range [of "x2 - x1" "y2 - y1"]
  by (simp add: calculateRopeLength_def calculateAngle_def not_less)

text \<open>The rope end dragged to (700, 500) around the centre (500, 500).\<close>

theorem rope_geometry_range_witness:
  "calculateRopeLength (Fin 500) (Fin 500) (Fin 700) (Fin 500) = Fin 200 \<and>
   calculateAngle (Fin 500) (Fin 500) (Fin 700) (Fin 500) = Fin (pi / 2)"
  using rope_geometry_range [of 500 500 700 500]
  by (simp add: atan2_def)

section \<open>Pitch snapping\<close>

lemma PENTATONIC_scale: "PENTATONIC_FREQUENCIES = map Fin scale"
  by (simp add: PENTATONIC_FREQUENCIES_def scale_def)

lemma scale_sorted: "sorted scale"
  by (simp add: scale_def)

lemma scale_split: "scale = hd scale # tl scale"
  by (simp add: scale_def)

lemma foldl_Fin:
  "foldl (\<lambda>prev curr. if jlt (Math_abs (jsub curr (Fin f))) (Math_abs (jsub prev (Fin f)))
                        then curr else prev) (Fin x) (map Fin xs)
   = Fin (foldl (nearer f) x xs)"
  by (induction xs arbitrary: x) (simp_all add: nearer_def)

lemma findClosest_Fin:
  "findClosestPentatonicFrequency (Fin f) = Fin (foldl (nearer f) (hd scale) (tl scale))"
  unfolding findClosestPentatonicFrequency_def PENTATONIC_scale
  by (simp add: scale_def foldl_Fin [symmetric] del: foldl.simps foldl_Cons)

text \<open>
  On an ascending list the fold ends on a member that is nearest to \<open>f\<close>, and on the
  least one among the nearest. The induction adds the elements at the end, as the fold
  meets them.
\<close>

lemma nearer_fold:
  "sorted (x # xs) \<Longrightarrow>
   foldl (nearer f) x xs \<in> set (x # xs) \<and>
   (\<forall>s \<in> set (x # xs). \<bar>foldl (nearer f) x xs - f\<bar> \<le> \<bar>s - f\<bar> \<and>
       (\<bar>s - f\<bar> = \<bar>foldl (nearer f) x xs - f\<bar> \<longrightarrow> foldl (nearer f) x xs \<le> s))"
proof (induction xs rule: rev_induct)
  case Nil
  then show ?case by simp
next
  case (snoc y ys)
  let ?r = "foldl (nearer f) x ys"
  from snoc.prems have srt: "sorted (x # ys)" and le: "\<forall>z \<in> set (x # ys). z \<le> y"
    by (auto simp: sorted_append)
  from snoc.IH [OF srt] have mem: "?r \<in> set (x # ys)"
    and best: "\<forall>s \<in> set (x # ys). \<bar>?r - f\<bar> \<le> \<bar>s - f\<bar> \<and> (\<bar>s - f\<bar> = \<bar>?r - f\<bar> \<longrightarrow> ?r \<le> s)"
    by blast+
  from mem le have ry: "?r \<le> y" by blast
  show ?case
  proof (cases "\<bar>y - f\<bar> < \<bar>?r - f\<bar>")
    case True
    then have eq: "foldl (nearer f) x (ys @ [y]) = y" by (simp add: nearer_def)
    have "\<bar>y - f\<bar> \<le> \<bar>s - f\<bar> \<and> (\<bar>s - f\<bar> = \<bar>y - f\<bar> \<longrightarrow> y \<le> s)"
      if "s \<in> set (x # ys @ [y])" for s
    proof (cases "s = y")
      case True
      then show ?thesis by simp
    next
      case False
      with that have "s \<in> set (x # ys)" by auto
      with best have "\<bar>?r - f\<bar> \<le> \<bar>s - f\<bar>" by blast
      with True show ?thesis by linarith
    qed
    with eq show ?thesis by simp
  next
    case False
    then have eq: "foldl (nearer f) x (ys @ [y]) = ?r" by (simp add: nearer_def)
    have "\<bar>?r - f\<bar> \<le> \<bar>s - f\<bar> \<and> (\<bar>s - f\<bar> = \<bar>?r - f\<bar> \<longrightarrow> ?r \<le> s)"
      if "s \<in> set (x # ys @ [y])" for s
    proof (cases "s = y")
      case True
      with False ry show ?thesis by simp
    next
      case False
      with that have "s \<in> set (x # ys)" by auto
      with best show ?thesis by blast
    qed
    moreover from mem have "?r \<in> set (x # ys @ [y])" by auto
    ultimately show ?thesis unfolding eq by blast
  qed
qed

lemma snap_nearest:
  "\<exists>r. findClosestPentatonicFrequency (Fin f) = Fin r \<and> Fin r \<in> set PENTATONIC_FREQUENCIES \<and>
       (\<forall>s. Fin s \<in> set PENTATONIC_FREQUENCIES \<longrightarrow>
            \<bar>r - f\<bar> \<le> \<bar>s - f\<bar> \<and> (\<bar>s - f\<bar> = \<bar>r - f\<bar> \<longrightarrow> r \<le> s))"
proof -
  let ?r = "foldl (nearer f) (hd scale) (tl scale)"
  have "sorted (hd scale # tl scale)" using scale_sorted scale_split by simp
  from nearer_fold [OF this, of f] scale_split
  have "?r \<in> set scale"
    and "\<forall>s \<in> set scale. \<bar>?r - f\<bar> \<le> \<bar>s - f\<bar> \<and> (\<bar>s - f\<bar> = \<bar>?r - f\<bar> \<longrightarrow> ?r \<le> s)"
    by simp_all
  then show ?thesis
    by (auto simp: findClosest_Fin PENTATONIC_scale)
qed

lemma snap_115: "findClosestPentatonicFrequency (Fin 115) = Fin 110"
  by (simp add: findClosest_Fin scale_def nearer_def)

text \<open>
  Claim C3. For every finite input frequency \<open>f\<close>,
  \<^verbatim>\<open>findClosestPentatonicFrequency\<close> returns a member \<open>r\<close> of the scale whose distance to
  \<open>f\<close> is least over the whole scale, and where another member \<open>s\<close> is exactly as near,
  \<open>r\<close> is the lower one (the one met first, the array being ascending). The input 115
  yields 110.
\<close>

theorem findClosestPentatonicFrequency_nearest:
  "(\<exists>r. findClosestPentatonicFrequency (Fin f) = Fin r \<and> Fin r \<in> set PENTATONIC_FREQUENCIES \<and>
        (\<forall>s. Fin s \<in> set PENTATONIC_FREQUENCIES \<longrightarrow>
             \<bar>r - f\<bar> \<le> \<bar>s - f\<bar> \<and> (\<bar>s - f\<bar> = \<bar>r - f\<bar> \<longrightarrow> r \<le> s))) \<and>
   findClosestPentatonicFrequency (Fin 115) = Fin 110"
  using snap_nearest [of f] snap_115 by blast

text \<open>
  The input 120.405 lies midway between 110 and 130.81: the tie goes to 110.
\<close>

theorem findClosestPentatonicFrequency_nearest_witness:
  "Fin 130.81 \<in> set PENTATONIC_FREQUENCIES \<and>
   \<bar>130.81 - 120.405\<bar> = \<bar>110 - (120.405 :: real)\<bar> \<and>
   findClosestPentatonicFrequency (Fin 120.405) = Fin 110"
proof -
  have m: "Fin 130.81 \<in> set PENTATONIC_FREQUENCIES" "Fin 110 \<in> set PENTATONIC_FREQUENCIES"
    by (simp_all add: PENTATONIC_FREQUENCIES_def)
  from findClosestPentatonicFrequency_nearest [of "120.405"]
  obtain r where r: "findClosestPentatonicFrequency (Fin 120.405) = Fin r"
    and mem: "Fin r \<in> set PENTATONIC_FREQUENCIES"
    and best: "\<forall>s. Fin s \<in> set PENTATONIC_FREQUENCIES \<longrightarrow>
             \<bar>r - 120.405\<bar> \<le> \<bar>s - 120.405\<bar> \<and> (\<bar>s - 120.405\<bar> = \<bar>r - 120.405\<bar> \<longrightarrow> r \<le> s)"
    by blast
  from best m(2) have a: "\<bar>r - 120.405\<bar> \<le> \<bar>110 - 120.405\<bar>"
    and b: "\<bar>110 - 120.405\<bar> = \<bar>r - 120.405\<bar> \<longrightarrow> r \<le> 110" by blast+
  from a have "r \<le> 130.81" by (simp add: abs_if split: if_splits)
  with mem have "r = 110 \<or> r = 130.81" by (auto simp: PENTATONIC_FREQUENCIES_def)
  with b have "r = 110" by auto
  with r m(1) show ?thesis by simp
qed

lemma pick_in_set: "foldl (\<lambda>prev curr. if P curr prev then curr else prev) x xs \<in> set (x # xs)"
  by (induction xs arbitrary: x) auto

lemma snap_member: "findClosestPentatonicFrequency freq \<in> set PENTATONIC_FREQUENCIES"
proof -
  have "PENTATONIC_FREQUENCIES = hd PENTATONIC_FREQUENCIES # tl PENTATONIC_FREQUENCIES"
    by (simp add: PENTATONIC_FREQUENCIES_def)
  then show ?thesis
    unfolding findClosestPentatonicFrequency_def
    using pick_in_set [of "\<lambda>curr prev. jlt (Math_abs (jsub curr freq)) (Math_abs (jsub prev freq))"
        "hd PENTATONIC_FREQUENCIES" "tl PENTATONIC_FREQUENCIES"]
    by simp
qed

lemma scale_bounds:
  "v \<in> set PENTATONIC_FREQUENCIES \<Longrightarrow> \<exists>r. v = Fin r \<and> 110 \<le> r \<and> r \<le> 880"
  by (auto simp: PENTATONIC_FREQUENCIES_def)

text \<open>
  Claim C10. Whatever the input, \<^verbatim>\<open>NaN\<close> and the infinities included,
  \<^verbatim>\<open>findClosestPentatonicFrequency\<close> returns an element of
  \<^verbatim>\<open>PENTATONIC_FREQUENCIES\<close>, hence a finite number between 110 and 880.
\<close>

theorem findClosestPentatonicFrequency_in_scale:
  "findClosestPentatonicFrequency freq \<in> set PENTATONIC_FREQUENCIES \<and>
   (\<exists>r. findClosestPentatonicFrequency freq = Fin r \<and> 110 \<le> r \<and> r \<le> 880)"
  using snap_member [of freq] scale_bounds by blast

text \<open>On \<^verbatim>\<open>NaN\<close> no comparison succeeds and the fold keeps element 0.\<close>

theorem findClosestPentatonicFrequency_in_scale_witness:
  "findClosestPentatonicFrequency NaN = Fin 110 \<and>
   findClosestPentatonicFrequency NaN \<in> set PENTATONIC_FREQUENCIES"
  using findClosestPentatonicFrequency_in_scale [of NaN]
  by (simp add: findClosestPentatonicFrequency_def PENTATONIC_FREQUENCIES_def jsub_def)

section \<open>Parameters sent by \<^verbatim>\<open>updateAudio\<close>\<close>

lemma ready_init: "audioReady (initAudio initialState)"
  by (simp add: audioReady_def initAudio_def initialState_def)

lemma updateAudio_gain:
  assumes "audioReady s"
  shows "gainTarget (updateAudio s (Fin L)) =
           Some (if 150 < L then Fin (min ((L - 150) / 350) 1 * 0.4) else Fin 0)"
  using assms
  by (auto simp: audioReady_def updateAudio_def Let_def gainTarget_def setTargetAtTime_def
      PARAMETERS_minOscillatorGain_def PARAMETERS_maxOscillatorGain_def)

lemma updateAudio_part_000_gain:
  assumes "audioReady s"
  shows "gainTarget (updateAudio_part_000 s (Fin L)) =
           Some (if 150 < L then Fin (min ((L - 150) / 350) 1 * 0.75) else Fin 0)"
  using assms
  by (auto simp: audioReady_def updateAudio_part_000_def Let_def gainTarget_def setTargetAtTime_def)

lemma updateAudio_lfo:
  assumes "audioReady s"
  shows "lfoRate (updateAudio s (Fin L)) = Some (Fin (0.1 + min ((L - 150) / 350) 1 * (15 - 0.1)))"
  using assms
  by (auto simp: audioReady_def updateAudio_def Let_def lfoRate_def setValueAtTime_def
      PARAMETERS_minLFOFreq_def PARAMETERS_maxLFOFreq_def)

lemma updateAudio_cutoff:
  assumes "audioReady s" "lowpassFilter s \<noteq> None"
  shows "filterCutoff (updateAudio s (Fin L)) = Some (Fin (0 + min ((L - 150) / 350) 1 * (5000 - 0)))"
  using assms
  by (auto simp: audioReady_def updateAudio_def Let_def filterCutoff_def setValueAtTime_def)

lemma updateAudio_osc:
  assumes "audioReady s" "lfoGain s = Some lg"
  shows "oscillatorTarget (updateAudio s L) =
     Some (jadd (findClosestPentatonicFrequency
                   (jadd (Fin 110)
                      (jmul (jdiv (jadd (calculateAngle (px (windowCenter s)) (py (windowCenter s))
                                           (px (currentRopeEnd s)) (py (currentRopeEnd s))) Math_PI)
                               (jmul (Fin 2) Math_PI)) (Fin 770))))
             (pvalue (gain lg)))"
  using assms
  by (auto simp: audioReady_def updateAudio_def Let_def oscillatorTarget_def setTargetAtTime_def)

lemma ready_init_part_000: "audioReady (initAudio_part_000 initialState)"
  by (simp add: audioReady_def initAudio_part_000_def initialState_def)

lemma updateAudio_part_000_lfo:
  assumes "audioReady s"
  shows "lfoRate (updateAudio_part_000 s (Fin L)) =
           Some (Fin (0.5 + min ((L - 150) / 350) 1 * (5 - 0.5) * 20))"
  using assms
  by (auto simp: audioReady_def updateAudio_part_000_def Let_def lfoRate_def setValueAtTime_def)

lemma updateAudio_part_000_osc:
  assumes "audioReady s" "lfoGain s = Some lg"
  shows "oscillatorTarget (updateAudio_part_000 s L) =
     Some (jadd (jadd (Fin 200)
                   (jmul (jdiv (jadd (calculateAngle (px (windowCenter s)) (py (windowCenter s))
                                        (px (currentRopeEnd s)) (py (currentRopeEnd s))) Math_PI)
                            (jmul (Fin 2) Math_PI)) (Fin 600)))
             (pvalue (gain lg)))"
  using assms
  by (auto simp: audioReady_def updateAudio_part_000_def Let_def oscillatorTarget_def
      setTargetAtTime_def)

lemma clamp_cap:
  fixes L c :: real
  assumes "0 \<le> c"
  shows "(if 150 < L then min ((L - 150) / 350) 1 * c else 0) = max 0 (min ((L - 150) / 350) 1) * c"
    and "0 \<le> max 0 (min ((L - 150) / 350) 1) * c"
    and "max 0 (min ((L - 150) / 350) 1) * c \<le> c"
proof -
  let ?n = "max 0 (min ((L - 150) / 350) 1)"
  have n: "0 \<le> ?n" "?n \<le> 1" by simp_all
  show "(if 150 < L then min ((L - 150) / 350) 1 * c else 0) = ?n * c"
    by (simp add: max_def min_def)
  from n assms show "0 \<le> ?n * c" by (intro mult_nonneg_nonneg)
  from n assms show "?n * c \<le> c" using mult_right_mono [of ?n 1 c] by simp
qed

text \<open>
  Claim C7. With the audio handles set, the gain target that \<^verbatim>\<open>updateAudio\<close> sends
  for a finite rope length \<open>L\<close> is the normalized length \<open>(L - 150) / 350\<close> clamped to
  the interval from 0 to 1, times the cap: 0.4 in \<^verbatim>\<open>App.vue\<close>, 0.75 in the other
  variant. It is 0 for \<open>L \<le> 150\<close>, and it lies between 0 and the cap, so below 1.
\<close>

theorem updateAudio_gain_target:
  assumes "audioReady s" and "audioReady s'"
  shows "\<exists>t u. gainTarget (updateAudio s (Fin L)) = Some (Fin t) \<and>
               gainTarget (updateAudio_part_000 s' (Fin L)) = Some (Fin u) \<and>
               t = max 0 (min ((L - 150) / 350) 1) * 0.4 \<and>
               u = max 0 (min ((L - 150) / 350) 1) * 0.75 \<and>
               (L \<le> 150 \<longrightarrow> t = 0 \<and> u = 0) \<and>
               0 \<le> t \<and> t \<le> 0.4 \<and> 0 \<le> u \<and> u \<le> 0.75"
proof -
  let ?n = "max 0 (min ((L - 150) / 350) 1)"
  have "gainTarget (updateAudio s (Fin L)) = Some (Fin (?n * 0.4))"
    using updateAudio_gain [OF assms(1), of L] clamp_cap(1) [of "0.4" L] by simp
  moreover have "gainTarget (updateAudio_part_000 s' (Fin L)) = Some (Fin (?n * 0.75))"
    using updateAudio_part_000_gain [OF assms(2), of L] clamp_cap(1) [of "0.75" L] by simp
  moreover have "L \<le> 150 \<longrightarrow> ?n * 0.4 = 0 \<and> ?n * 0.75 = 0"
    by (simp add: max_def min_def)
  moreover have "0 \<le> ?n * 0.4" "?n * 0.4 \<le> 0.4" "0 \<le> ?n * 0.75" "?n * 0.75 \<le> 0.75"
    using clamp_cap(2,3) [of "0.4" L] clamp_cap(2,3) [of "0.75" L] by simp_all
  ultimately show ?thesis by blast
qed

text \<open>Half way between the two thresholds, after each variant built its audio graph.\<close>

theorem updateAudio_gain_target_witness:
  "audioReady (initAudio initialState) \<and> audioReady (initAudio_part_000 initialState) \<and>
   gainTarget (updateAudio (initAudio initialState) (Fin 325)) = Some (Fin 0.2) \<and>
   gainTarget (updateAudio_part_000 (initAudio_part_000 initialState) (Fin 325)) = Some (Fin 0.375)"
  using updateAudio_gain_target [OF ready_init ready_init_part_000, of 325]
    ready_init ready_init_part_000
  by auto

section \<open>Pitch sent to the oscillator\<close>

text \<open>
  Claim C4, as the code has it. With the audio handles set and finite coordinates, the
  target that \<^verbatim>\<open>updateAudio\<close> sends to the frequency of the carrier oscillator is the
  pitch derived from the angle plus the value read from the gain of the modulation path.
  In \<^verbatim>\<open>App.vue\<close> the pitch is the member \<open>r\<close> of the scale to which the angle-mapped
  frequency snaps; in the variant without a scale it is the angle-mapped frequency
  itself.
\<close>

theorem updateAudio_oscillator_target:
  assumes "audioReady s" and "lfoGain s = Some lg"
    and "windowCenter s = \<lparr>px = Fin cx, py = Fin cy\<rparr>"
    and "currentRopeEnd s = \<lparr>px = Fin ex, py = Fin ey\<rparr>"
  shows "(\<exists>r. findClosestPentatonicFrequency
                (Fin (110 + (atan2 (ex - cx) (ey - cy) + pi) / (2 * pi) * 770)) = Fin r \<and>
              Fin r \<in> set PENTATONIC_FREQUENCIES \<and>
              oscillatorTarget (updateAudio s L) = Some (jadd (Fin r) (pvalue (gain lg)))) \<and>
         oscillatorTarget (updateAudio_part_000 s L) =
           Some (jadd (Fin (200 + (atan2 (ex - cx) (ey - cy) + pi) / (2 * pi) * 600))
                   (pvalue (gain lg)))"
proof -
  let ?b = "110 + (atan2 (ex - cx) (ey - cy) + pi) / (2 * pi) * 770"
  from snap_nearest [of ?b] obtain r
    where r: "findClosestPentatonicFrequency (Fin ?b) = Fin r" "Fin r \<in> set PENTATONIC_FREQUENCIES"
    by blast
  have "oscillatorTarget (updateAudio s L) =
          Some (jadd (findClosestPentatonicFrequency (Fin ?b)) (pvalue (gain lg)))"
    using updateAudio_osc [OF assms(1,2), of L] assms(3,4)
    by (simp add: calculateAngle_def Math_PI_def)
  moreover have "oscillatorTarget (updateAudio_part_000 s L) =
           Some (jadd (Fin (200 + (atan2 (ex - cx) (ey - cy) + pi) / (2 * pi) * 600))
                   (pvalue (gain lg)))"
    using updateAudio_part_000_osc [OF assms(1,2), of L] assms(3,4)
    by (simp add: calculateAngle_def Math_PI_def)
  ultimately show ?thesis using r by auto
qed

lemma init_lfoGain:
  "lfoGain (initAudio initialState) = Some \<lparr>gain = \<lparr>pvalue = Fin 3, ptarget = None\<rparr>\<rparr>"
  by (simp add: initAudio_def initialState_def setValueAtTime_def PARAMETERS_lfoGain_def)

lemma init_lfoGain_part_000:
  "lfoGain (initAudio_part_000 initialState) = Some \<lparr>gain = \<lparr>pvalue = Fin 50, ptarget = None\<rparr>\<rparr>"
  by (simp add: initAudio_part_000_def initialState_def setValueAtTime_def)

lemma angle_quarter: "(atan2 (700 - 500) (500 - 500) + pi) / (2 * pi) = 3 / 4"
  by (simp add: atan2_def field_simps)

text \<open>
  Rope end at (700, 500) around the centre (500, 500) in \<^verbatim>\<open>App.vue\<close>: the angle is
  \<open>\<pi> / 2\<close>, the base frequency 687.5, the snapped pitch 659.25, the depth 3, and the
  target 662.25, which is neither the base frequency nor the snapped pitch.
\<close>

theorem updateAudio_oscillator_target_witness:
  "oscillatorTarget (updateAudio ((initAudio initialState)
       \<lparr>windowCenter := \<lparr>px = Fin 500, py = Fin 500\<rparr>,
        currentRopeEnd := \<lparr>px = Fin 700, py = Fin 500\<rparr>\<rparr>) (Fin 200)) = Some (Fin 662.25)"
proof -
  let ?s = "(initAudio initialState)
       \<lparr>windowCenter := \<lparr>px = Fin 500, py = Fin 500\<rparr>,
        currentRopeEnd := \<lparr>px = Fin 700, py = Fin 500\<rparr>\<rparr>"
  have a: "audioReady ?s" using ready_init by (simp add: audioReady_def)
  have b: "lfoGain ?s = Some \<lparr>gain = \<lparr>pvalue = Fin 3, ptarget = None\<rparr>\<rparr>"
    using init_lfoGain by simp
  have c: "110 + (atan2 (700 - 500) (500 - 500) + pi) / (2 * pi) * 770 = 687.5"
    unfolding angle_quarter by simp
  have d: "findClosestPentatonicFrequency (Fin 687.5) = Fin 659.25"
    by (simp add: findClosest_Fin scale_def nearer_def)
  from updateAudio_oscillator_target [OF a b, of 500 500 700 500 "Fin 200", THEN conjunct1]
  obtain r where "findClosestPentatonicFrequency
        (Fin (110 + (atan2 (700 - 500) (500 - 500) + pi) / (2 * pi) * 770)) = Fin r"
    and t: "oscillatorTarget (updateAudio ?s (Fin 200)) =
              Some (jadd (Fin r) (pvalue (gain \<lparr>gain = \<lparr>pvalue = Fin 3, ptarget = None\<rparr>\<rparr>)))"
    by auto
  then have "r = 659.25" unfolding c d by simp
  with t show ?thesis by simp
qed

text \<open>
  Claim C4 as stated, with the snapped pitch on every tick, fails on the variant without
  a scale. At the same position, after its own \<^verbatim>\<open>initAudio\<close>, the depth is 50 and
  the target is 700, that is 650 plus the depth, and 650 is no member of the scale.
\<close>

theorem updateAudio_part_000_unsnapped:
  "oscillatorTarget (updateAudio_part_000 ((initAudio_part_000 initialState)
       \<lparr>windowCenter := \<lparr>px = Fin 500, py = Fin 500\<rparr>,
        currentRopeEnd := \<lparr>px = Fin 700, py = Fin 500\<rparr>\<rparr>) (Fin 200)) = Some (Fin 700) \<and>
   map_option (pvalue \<circ> gain) (lfoGain (initAudio_part_000 initialState)) = Some (Fin 50) \<and>
   Fin (700 - 50) \<notin> set PENTATONIC_FREQUENCIES"
proof -
  let ?s = "(initAudio_part_000 initialState)
       \<lparr>windowCenter := \<lparr>px = Fin 500, py = Fin 500\<rparr>,
        currentRopeEnd := \<lparr>px = Fin 700, py = Fin 500\<rparr>\<rparr>"
  have a: "audioReady ?s" using ready_init_part_000 by (simp add: audioReady_def)
  have b: "lfoGain ?s = Some \<lparr>gain = \<lparr>pvalue = Fin 50, ptarget = None\<rparr>\<rparr>"
    using init_lfoGain_part_000 by simp
  have "oscillatorTarget (updateAudio_part_000 ?s (Fin 200)) =
          Some (Fin (200 + (atan2 (700 - 500) (500 - 500) + pi) / (2 * pi) * 600 + 50))"
    using updateAudio_part_000_osc [OF a b, of "Fin 200"]
    by (simp add: calculateAngle_def Math_PI_def)
  then have "oscillatorTarget (updateAudio_part_000 ?s (Fin 200)) = Some (Fin 700)"
    unfolding angle_quarter by simp
  moreover have "Fin (700 - 50) \<notin> set PENTATONIC_FREQUENCIES"
    by (simp add: PENTATONIC_FREQUENCIES_def)
  ultimately show ?thesis using init_lfoGain_part_000 by simp
qed

section \<open>Normalized length below the lower threshold\<close>

text \<open>
  Claim C2 asks that the normalized length is 0 for a rope length up to 150 and never
  negative. At the rope length 120 of the rest position the code gives \<open>-3/35\<close>: only \<^verbatim>\<open>Math.min(\<dots>, 1)\<close> is applied. The modulation rate sent is
  negative, below \<^verbatim>\<open>minLFOFreq\<close>, and so is the cutoff, below \<^verbatim>\<open>minCutoff\<close>; the
  rate of the other variant is negative as well, below its \<^verbatim>\<open>minLFODepth\<close>.
\<close>

theorem updateAudio_below_minimum:
  "lfoRate (updateAudio (initAudio initialState) (Fin 120)) = Some (Fin (- (206 / 175))) \<and>
   filterCutoff (updateAudio (initAudio initialState) (Fin 120)) = Some (Fin (- (3000 / 7))) \<and>
   lfoRate (updateAudio_part_000 (initAudio_part_000 initialState) (Fin 120))
     = Some (Fin (- (101 / 14))) \<and>
   Math_min (jdiv (jsub (Fin 120) (Fin 150)) (jsub (Fin 500) (Fin 150))) (Fin 1) = Fin (- (3 / 35))"
proof -
  have f: "lowpassFilter (initAudio initialState) \<noteq> None"
    by (simp add: initAudio_def initialState_def)
  show ?thesis
    using updateAudio_lfo [OF ready_init, of 120] updateAudio_cutoff [OF ready_init f, of 120]
      updateAudio_part_000_lfo [OF ready_init_part_000, of 120]
    by simp
qed

text \<open>
  The state is one that \<^verbatim>\<open>updateAudio\<close> acts on, and the rate it sends lies below
  \<^verbatim>\<open>PARAMETERS.minLFOFreq\<close>.
\<close>

theorem updateAudio_below_minimum_witness:
  "audioReady (initAudio initialState) \<and>
   lfoRate (updateAudio (initAudio initialState) (Fin 120)) = Some (Fin (- (206 / 175))) \<and>
   jlt (Fin (- (206 / 175))) PARAMETERS_minLFOFreq"
  using updateAudio_below_minimum ready_init
  by (simp add: PARAMETERS_minLFOFreq_def)

section \<open>Releasing the rope end\<close>

lemma handleMouseUp_rest:
  assumes "windowDiv s = Some rect" and "gainNode s = None \<or> audioContext s \<noteq> None"
    and "mousePosition s = \<lparr>px = Fin mx, py = Fin my\<rparr>"
    and "windowCenter s = \<lparr>px = Fin cx, py = Fin cy\<rparr>"
  shows "\<exists>s'. handleMouseUp s = Inr s' \<and> \<not> isDragging s' \<and>
           restPosition s' =
             (if mx = cx \<and> my = cy then \<lparr>px = NaN, py = NaN\<rparr>
              else \<lparr>px = Fin (cx + (mx - cx) / sqrt ((mx - cx) * (mx - cx) + (my - cy) * (my - cy)) * 120),
                    py = Fin (cy + (my - cy) / sqrt ((mx - cx) * (mx - cx) + (my - cy) * (my - cy)) * 120)\<rparr>)"
proof (cases "gainNode s")
  case None
  with assms show ?thesis
    by (simp add: handleMouseUp_def calculateRestPosition_def Let_def not_sum_squares_lt_zero
        sum_squares_eq_zero_iff)
next
  case (Some g)
  with assms(2) obtain ctx where "audioContext s = Some ctx" by auto
  with Some assms show ?thesis
    by (simp add: handleMouseUp_def calculateRestPosition_def Let_def not_sum_squares_lt_zero
        sum_squares_eq_zero_iff)
qed





lemma mounted:
  "\<exists>s1. onMounted mountable = Inr s1 \<and> windowDiv s1 = windowDiv mountable \<and>
        windowCenter s1 = \<lparr>px = Fin 500, py = Fin 500\<rparr> \<and>
        currentRopeEnd s1 = \<lparr>px = Fin 500, py = Fin 620\<rparr> \<and>
        gainNode s1 = None \<and> audioContext s1 = None \<and> \<not> isAudioInitialized s1 \<and>
        containerCanvas s1"
  by (simp add: onMounted_def mountable_def initialState_def updateWindowCenter_def rect_bottom_def
      Let_def animate_def requestAnimationFrame_def lerp_def updateAudio_def)

lemma updateAudio_keeps:
  "currentRopeEnd (updateAudio s L) = currentRopeEnd s"
  "restPosition (updateAudio s L) = restPosition s"
  "isDragging (updateAudio s L) = isDragging s"
  "containerCanvas (updateAudio s L) = containerCanvas s"
  "windowDiv (updateAudio s L) = windowDiv s"
  "windowCenter (updateAudio s L) = windowCenter s"
  "mousePosition (updateAudio s L) = mousePosition s"
  by (simp_all add: updateAudio_def Let_def split: option.splits)


lemma animate_ropeEnd:
  assumes "containerCanvas s" and "windowDiv s \<noteq> None"
  shows "currentRopeEnd (animate s) =
           (if isDragging s
            then \<lparr>px = lerp (px (currentRopeEnd s)) (px (mousePosition s)) (Fin 0.2),
                  py = lerp (py (currentRopeEnd s)) (py (mousePosition s)) (Fin 0.2)\<rparr>
            else \<lparr>px = lerp (px (currentRopeEnd s)) (px (restPosition s)) (Fin 0.01),
                  py = lerp (py (currentRopeEnd s)) (py (restPosition s)) (Fin 0.01)\<rparr>)"
  using assms
  by (auto simp: animate_def Let_def requestAnimationFrame_def updateAudio_keeps)

text \<open>
  Claim C1 asks that a release with the pointer on the window centre gives a rest
  position in a fallback direction, without \<^verbatim>\<open>NaN\<close>. The code has no such case.
  The component is mounted, the rope end is grabbed at (500, 620), the pointer moves to
  the centre (500, 500) and is released there. The distance is 0 and both quotients are
  \<^verbatim>\<open>0 / 0\<close>: the rest position is \<^verbatim>\<open>NaN\<close> in both components, and the next
  tick makes the rope end \<^verbatim>\<open>NaN\<close> as well.
\<close>

theorem release_at_center:
  "\<exists>s1 s2. onMounted mountable = Inr s1 \<and>
      handleMouseUp (handleMouseMove (handleMouseDown s1 \<lparr>clientX = Fin 500, clientY = Fin 620\<rparr>)
                       \<lparr>clientX = Fin 500, clientY = Fin 500\<rparr>) = Inr s2 \<and>
      restPosition s2 = \<lparr>px = NaN, py = NaN\<rparr> \<and>
      currentRopeEnd (animate s2) = \<lparr>px = NaN, py = NaN\<rparr>"
proof -
  from mounted obtain s1 where s1: "onMounted mountable = Inr s1"
    "windowDiv s1 = windowDiv mountable" "windowCenter s1 = \<lparr>px = Fin 500, py = Fin 500\<rparr>"
    "currentRopeEnd s1 = \<lparr>px = Fin 500, py = Fin 620\<rparr>"
    "gainNode s1 = None" "audioContext s1 = None" "\<not> isAudioInitialized s1"
    "containerCanvas s1"
    by blast
  let ?s = "handleMouseMove (handleMouseDown s1 \<lparr>clientX = Fin 500, clientY = Fin 620\<rparr>)
              \<lparr>clientX = Fin 500, clientY = Fin 500\<rparr>"
  have d: "handleMouseDown s1 \<lparr>clientX = Fin 500, clientY = Fin 620\<rparr> =
        (initAudio s1)\<lparr>isDragging := True, mousePosition := \<lparr>px = Fin 500, py = Fin 620\<rparr>\<rparr>"
    using s1 by (simp add: handleMouseDown_def Let_def updateMousePosition_def)
  have m: "?s = (initAudio s1)\<lparr>isDragging := True, mousePosition := \<lparr>px = Fin 500, py = Fin 500\<rparr>\<rparr>"
    unfolding d by (simp add: handleMouseMove_def updateMousePosition_def)
  have w: "windowDiv ?s = Some \<lparr>rect_left = Fin 400, rect_top = Fin 400,
                                      rect_width = Fin 200, rect_height = Fin 200\<rparr>"
    and g: "gainNode ?s = None \<or> audioContext ?s \<noteq> None"
    and p: "mousePosition ?s = \<lparr>px = Fin 500, py = Fin 500\<rparr>"
    and c: "windowCenter ?s = \<lparr>px = Fin 500, py = Fin 500\<rparr>"
    and k: "containerCanvas ?s" "currentRopeEnd ?s = \<lparr>px = Fin 500, py = Fin 620\<rparr>"
    unfolding m using s1 by (simp_all add: initAudio_def mountable_def)
  from handleMouseUp_rest [OF w g p c]
  obtain s2 where s2: "handleMouseUp ?s = Inr s2" "\<not> isDragging s2"
    "restPosition s2 = \<lparr>px = NaN, py = NaN\<rparr>"
    by auto
  from s2(1) w k have e: "containerCanvas s2" "windowDiv s2 \<noteq> None"
    "currentRopeEnd s2 = \<lparr>px = Fin 500, py = Fin 620\<rparr>"
    by (auto simp: handleMouseUp_def calculateRestPosition_def Let_def
        split: option.splits sum.splits)
  have "currentRopeEnd (animate s2) = \<lparr>px = NaN, py = NaN\<rparr>"
    using animate_ropeEnd [OF e(1,2)] s2(2,3) e(3) by (simp add: lerp_def jsub_def)
  with s1(1) s2 show ?thesis by blast
qed

text \<open>
  In this run the canvas and the window element are present, so no tick is skipped and
  no call raises.
\<close>

theorem release_at_center_witness:
  "containerCanvas mountable \<and> windowDiv mountable \<noteq> None \<and>
   (\<exists>s1 s2. onMounted mountable = Inr s1 \<and>
      handleMouseUp (handleMouseMove (handleMouseDown s1 \<lparr>clientX = Fin 500, clientY = Fin 620\<rparr>)
                       \<lparr>clientX = Fin 500, clientY = Fin 500\<rparr>) = Inr s2 \<and>
      px (restPosition s2) = NaN \<and> py (restPosition s2) = NaN)"
proof -
  from release_at_center obtain s1 s2 where "onMounted mountable = Inr s1"
    and "handleMouseUp (handleMouseMove (handleMouseDown s1 \<lparr>clientX = Fin 500, clientY = Fin 620\<rparr>)
                       \<lparr>clientX = Fin 500, clientY = Fin 500\<rparr>) = Inr s2"
    and "restPosition s2 = \<lparr>px = NaN, py = NaN\<rparr>"
    by blast
  then show ?thesis by (auto simp: mountable_def initialState_def)
qed

text \<open>The other variant divides in the same way, whatever the width of the window.\<close>

lemma calculateRestPosition_part_000_center:
  assumes "windowDiv s = Some rect" and "windowCenter s = \<lparr>px = Fin cx, py = Fin cy\<rparr>"
  shows "calculateRestPosition_part_000 s (Fin cx) (Fin cy) = Inr \<lparr>px = NaN, py = NaN\<rparr>"
  using assms by (simp add: calculateRestPosition_part_000_def Let_def)

section \<open>Settling\<close>






section \<open>Teardown\<close>

lemma onUnmounted_once:
  "oscillator (onUnmounted s) = map_option (\<lambda>osc. osc\<lparr>osc_stops := Suc (osc_stops osc)\<rparr>) (oscillator s)"
  "lfo (onUnmounted s) = map_option (\<lambda>l. l\<lparr>osc_stops := Suc (osc_stops l)\<rparr>) (lfo s)"
  "audioContext (onUnmounted s) = map_option (\<lambda>ctx. ctx\<lparr>closes := Suc (closes ctx)\<rparr>) (audioContext s)"
  "cancelledFrames (onUnmounted s) =
     cancelledFrames s @ (case animationFrameId s of None \<Rightarrow> [] | Some i \<Rightarrow> [i])"
  "animationFrameId (onUnmounted s) = animationFrameId s"
  "\<not> listeners (onUnmounted s)"
  by (simp_all add: onUnmounted_def Let_def cancelAnimationFrame_def split: option.splits)

text \<open>
  Claim C9, as the code has it. Each call of \<^verbatim>\<open>onUnmounted\<close> cancels the frame
  recorded in \<^verbatim>\<open>animationFrameId\<close> if there is one, calls \<^verbatim>\<open>stop()\<close> on the
  oscillator and on the modulation oscillator and \<^verbatim>\<open>close()\<close> on the context if
  these handles are set, and removes the listeners. The handles stay set, so \<open>n\<close> calls
  make \<open>n\<close> such calls on each of them; a handle that is null stays null and gets no
  call.
\<close>

theorem onUnmounted_repeated:
  "oscillator ((onUnmounted ^^ n) s) =
     map_option (\<lambda>osc. osc\<lparr>osc_stops := osc_stops osc + n\<rparr>) (oscillator s) \<and>
   lfo ((onUnmounted ^^ n) s) = map_option (\<lambda>l. l\<lparr>osc_stops := osc_stops l + n\<rparr>) (lfo s) \<and>
   audioContext ((onUnmounted ^^ n) s) =
     map_option (\<lambda>ctx. ctx\<lparr>closes := closes ctx + n\<rparr>) (audioContext s) \<and>
   cancelledFrames ((onUnmounted ^^ n) s) =
     cancelledFrames s @ (case animationFrameId s of None \<Rightarrow> [] | Some i \<Rightarrow> replicate n i) \<and>
   animationFrameId ((onUnmounted ^^ n) s) = animationFrameId s \<and>
   (0 < n \<longrightarrow> \<not> listeners ((onUnmounted ^^ n) s))"
proof (induction n)
  case 0
  show ?case by (simp add: option.map_ident split: option.splits)
next
  case (Suc n)
  then show ?case
    by (simp add: onUnmounted_once option.map_comp comp_def replicate_append_same
        split: option.splits)
qed

text \<open>Two calls after the audio graph was built and a frame requested.\<close>

theorem onUnmounted_repeated_witness:
  "map_option osc_stops (oscillator ((onUnmounted ^^ 2) playing)) = Some 2 \<and>
   map_option osc_stops (lfo ((onUnmounted ^^ 2) playing)) = Some 2 \<and>
   map_option closes (audioContext ((onUnmounted ^^ 2) playing)) = Some 2 \<and>
   cancelledFrames ((onUnmounted ^^ 2) playing) = [1, 1] \<and>
   \<not> listeners ((onUnmounted ^^ 2) playing)"
  using onUnmounted_repeated [of 2 playing]
  by (simp add: playing_def initAudio_def requestAnimationFrame_def initialState_def
      setValueAtTime_def numeral_2_eq_2)

text \<open>
  Claim C9 as stated, with a teardown that acts once and is a no-op when repeated, fails:
  the second call changes the state again, and the oscillator has then been stopped twice
  and the context closed twice.
\<close>

theorem onUnmounted_twice_not_noop:
  "onUnmounted (onUnmounted playing) \<noteq> onUnmounted playing \<and>
   map_option osc_stops (oscillator (onUnmounted playing)) = Some 1 \<and>
   map_option osc_stops (oscillator (onUnmounted (onUnmounted playing))) = Some 2 \<and>
   map_option closes (audioContext (onUnmounted (onUnmounted playing))) = Some 2"
proof -
  have a: "map_option osc_stops (oscillator (onUnmounted playing)) = Some 1"
    and b: "map_option osc_stops (oscillator (onUnmounted (onUnmounted playing))) = Some 2"
    and c: "map_option closes (audioContext (onUnmounted (onUnmounted playing))) = Some 2"
    by (simp_all add: onUnmounted_once playing_def initAudio_def requestAnimationFrame_def
        initialState_def option.map_comp comp_def)
  from a b have "onUnmounted (onUnmounted playing) \<noteq> onUnmounted playing" by auto
  with a b c show ?thesis by simp
qed

text \<open>
  In the other variant the teardown raises on every call, after the context was closed
  and before the modulation oscillator is stopped or a listener removed.
\<close>

lemma onUnmounted_part_000_throws:
  "fst (onUnmounted_part_000 s) = ReferenceError \<and>
   lfo (snd (onUnmounted_part_000 s)) = lfo s \<and>
   listeners (snd (onUnmounted_part_000 s)) = listeners s"
  by (simp add: onUnmounted_part_000_def Let_def cancelAnimationFrame_def split: option.splits)

end
